theory Spec2Isabelle
  imports Complex_Main
begin

section \<open>The transfer extractor of coral-agent\<close>

text \<open>
  This theory embeds \<^verbatim>\<open>extractRelevantTxData\<close> of \<^verbatim>\<open>src/index.ts\<close> (lines 268 to 354;
  the file holds the same text a second time, from line 662): the function that turns a
  fetched Solana transaction and a wallet address into a transfer summary. The function
  is pure; everything it reads is a field of its first argument.

  Conventions of the embedding.
  \<^item> A value that may be \<^verbatim>\<open>null\<close> or \<^verbatim>\<open>undefined\<close> is an \<open>option\<close>, and \<open>None\<close> stands
    for both: the source tests such values for truthiness only, and the fields of the
    summary that hold one (\<^verbatim>\<open>sender\<close>, \<^verbatim>\<open>receiver\<close>, \<^verbatim>\<open>signature\<close>) are read as
    "no value" either way. The one place where the source separates the two
    (\<^verbatim>\<open>preBalance !== null\<close>) uses the type \<open>jsval\<close> below, which keeps them apart.
  \<^item> The integer fields of the RPC record (\<^verbatim>\<open>slot\<close>, \<^verbatim>\<open>blockTime\<close>, balances,
    \<^verbatim>\<open>decimals\<close>) are \<open>int\<close>. Numbers the function computes are \<open>jsnum\<close>: an exact
    rational, \<^verbatim>\<open>NaN\<close> or a signed infinity. The rounding of IEEE binary64, its overflow
    and the sign of zero are not modelled: arithmetic on finite values is exact.
  \<^item> A \<^verbatim>\<open>PublicKey\<close> is identified with its base58 string, so \<^verbatim>\<open>key.toBase58()\<close> is the
    identity.
  \<^item> A raised exception is the left summand of the result.
\<close>

subsection \<open>Values of the host language\<close>

datatype js_error = RangeError | Error

datatype 'a jsval = Null | Undefined | Val 'a

datatype jsnum = Num rat | NaN | PosInfinity | NegInfinity

text \<open>\<^verbatim>\<open>a - b\<close> on numbers.\<close>

fun js_sub :: "jsnum \<Rightarrow> jsnum \<Rightarrow> jsnum" where
  "js_sub NaN b = NaN"
| "js_sub a NaN = NaN"
| "js_sub (Num x) (Num y) = Num (x - y)"
| "js_sub (Num x) PosInfinity = NegInfinity"
| "js_sub (Num x) NegInfinity = PosInfinity"
| "js_sub PosInfinity PosInfinity = NaN"
| "js_sub PosInfinity b = PosInfinity"
| "js_sub NegInfinity NegInfinity = NaN"
| "js_sub NegInfinity b = NegInfinity"

text \<open>
  \<^verbatim>\<open>a / d\<close> for a finite divisor \<open>d > 0\<close>; the two divisors of the source,
  \<^verbatim>\<open>10 ** decimals\<close> and \<^verbatim>\<open>1e9\<close>, are of that kind.
\<close>

fun js_div_pos :: "jsnum \<Rightarrow> rat \<Rightarrow> jsnum" where
  "js_div_pos (Num x) d = Num (x / d)"
| "js_div_pos a d = a"

fun js_neg :: "jsnum \<Rightarrow> jsnum" where
  "js_neg (Num x) = Num (- x)"
| "js_neg NaN = NaN"
| "js_neg PosInfinity = NegInfinity"
| "js_neg NegInfinity = PosInfinity"

text \<open>\<^verbatim>\<open>10 ** d\<close> for an integer exponent.\<close>

definition pow10 :: "int \<Rightarrow> rat" where
  "pow10 d = (if 0 \<le> d then 10 ^ nat d else 1 / 10 ^ nat (- d))"

text \<open>The conversion \<^verbatim>\<open>ToNumber\<close> that \<^verbatim>\<open>-\<close> applies to its operands.\<close>

fun toNumber :: "int jsval \<Rightarrow> jsnum" where
  "toNumber (Val i) = Num (of_int i)"
| "toNumber Null = Num 0"
| "toNumber Undefined = NaN"

text \<open>Reading an array at an index: \<^verbatim>\<open>undefined\<close> outside the array.\<close>

definition Array_get :: "'a list \<Rightarrow> int \<Rightarrow> 'a jsval" where
  "Array_get xs i = (if 0 \<le> i \<and> nat i < length xs then Val (xs ! nat i) else Undefined)"

subsection \<open>\<^verbatim>\<open>Number(string)\<close>\<close>

text \<open>
  \<^verbatim>\<open>Number\<close> applied to a string follows the grammar \<^verbatim>\<open>StringNumericLiteral\<close> of
  ECMAScript: white space is trimmed, the empty string is \<open>0\<close>, then an optionally signed
  decimal literal (digits, fraction, exponent, or \<^verbatim>\<open>Infinity\<close>) or an unsigned binary,
  octal or hexadecimal literal; every other string is \<^verbatim>\<open>NaN\<close>. Only the white space of
  ASCII is recognised here.
\<close>

definition isWhiteSpace :: "char \<Rightarrow> bool" where
  "isWhiteSpace c = (of_char c \<in> {9, 10, 11, 12, 13, 32 :: nat})"

definition trim :: "string \<Rightarrow> string" where
  "trim s = rev (dropWhile isWhiteSpace (rev (dropWhile isWhiteSpace s)))"

definition isDigit :: "char \<Rightarrow> bool" where
  "isDigit c = (48 \<le> (of_char c :: nat) \<and> (of_char c :: nat) \<le> 57)"

text \<open>The value of a digit in a base up to 16, when it is one.\<close>

definition digitIn :: "nat \<Rightarrow> char \<Rightarrow> nat option" where
  "digitIn b c =
     (let n = (of_char c :: nat);
          v = (if 48 \<le> n \<and> n \<le> 57 then n - 48
               else if 97 \<le> n \<and> n \<le> 102 then n - 87
               else if 65 \<le> n \<and> n \<le> 70 then n - 55
               else 16)
      in if v < b then Some v else None)"

fun digitsIn :: "nat \<Rightarrow> nat \<Rightarrow> string \<Rightarrow> nat option" where
  "digitsIn b acc [] = Some acc"
| "digitsIn b acc (c # cs) =
     (case digitIn b c of None \<Rightarrow> None | Some v \<Rightarrow> digitsIn b (b * acc + v) cs)"

definition digitsVal :: "string \<Rightarrow> nat" where
  "digitsVal ds = (case digitsIn 10 0 ds of None \<Rightarrow> 0 | Some n \<Rightarrow> n)"

definition nonDecimalLiteral :: "string \<Rightarrow> nat option" where
  "nonDecimalLiteral s =
     (case s of
        z # p # ds \<Rightarrow>
          (if z \<noteq> CHR ''0'' \<or> ds = [] then None
           else if p = CHR ''x'' \<or> p = CHR ''X'' then digitsIn 16 0 ds
           else if p = CHR ''o'' \<or> p = CHR ''O'' then digitsIn 8 0 ds
           else if p = CHR ''b'' \<or> p = CHR ''B'' then digitsIn 2 0 ds
           else None)
      | _ \<Rightarrow> None)"

definition exponentPart :: "string \<Rightarrow> int option" where
  "exponentPart s =
     (case s of
        [] \<Rightarrow> Some 0
      | e # t \<Rightarrow>
          (if e = CHR ''e'' \<or> e = CHR ''E'' then
             (let sgn = (case t of c # u \<Rightarrow> if c = CHR ''-'' then - 1 else 1 | [] \<Rightarrow> (1::int));
                  ds = (case t of c # u \<Rightarrow> if c = CHR ''-'' \<or> c = CHR ''+'' then u else t
                        | [] \<Rightarrow> t)
              in if ds \<noteq> [] \<and> list_all isDigit ds then Some (sgn * int (digitsVal ds))
                 else None)
           else None))"

definition strUnsignedDecimalLiteral :: "string \<Rightarrow> jsnum" where
  "strUnsignedDecimalLiteral s =
     (if s = ''Infinity'' then PosInfinity
      else
        let ip = takeWhile isDigit s;
            r1 = dropWhile isDigit s;
            fp = (case r1 of c # t \<Rightarrow> if c = CHR ''.'' then takeWhile isDigit t else []
                  | [] \<Rightarrow> []);
            r2 = (case r1 of c # t \<Rightarrow> if c = CHR ''.'' then dropWhile isDigit t else r1
                  | [] \<Rightarrow> [])
        in if ip = [] \<and> fp = [] then NaN
           else
             (case exponentPart r2 of
                None \<Rightarrow> NaN
              | Some e \<Rightarrow>
                  Num ((of_nat (digitsVal ip) + of_nat (digitsVal fp) / 10 ^ length fp)
                       * pow10 e)))"

definition Number_js :: "string \<Rightarrow> jsnum" where
  "Number_js s =
     (let t = trim s in
      if t = [] then Num 0
      else
        (case nonDecimalLiteral t of
           Some n \<Rightarrow> Num (of_nat n)
         | None \<Rightarrow>
             (case t of
                c # u \<Rightarrow>
                  (if c = CHR ''+'' then strUnsignedDecimalLiteral u
                   else if c = CHR ''-'' then js_neg (strUnsignedDecimalLiteral u)
                   else strUnsignedDecimalLiteral t)
              | [] \<Rightarrow> Num 0)))"

subsection \<open>\<^verbatim>\<open>new Date(ms).toISOString()\<close>\<close>

text \<open>
  A \<^verbatim>\<open>Date\<close> holds a time value of at most \<open>8.64 * 10^15\<close> milliseconds on either side
  of the epoch; beyond that it is invalid, and \<^verbatim>\<open>toISOString\<close> raises \<^verbatim>\<open>RangeError\<close> on an
  invalid date. Otherwise the string is \<^verbatim>\<open>YYYY-MM-DDTHH:mm:ss.sssZ\<close> in the proleptic
  Gregorian calendar, the year written with a sign and six digits outside 0 to 9999.
\<close>

fun digits :: "nat \<Rightarrow> nat \<Rightarrow> string" where
  "digits 0 n = []"
| "digits (Suc w) n = digits w (n div 10) @ [char_of (48 + n mod 10)]"

text \<open>Year, month and day of a day number counted from 1970-01-01.\<close>

definition civil :: "int \<Rightarrow> int \<times> int \<times> int" where
  "civil days =
     (let z = days + 719468;
          era = z div 146097;
          doe = z - era * 146097;
          yoe = (doe - doe div 1460 + doe div 36524 - doe div 146096) div 365;
          doy = doe - (365 * yoe + yoe div 4 - yoe div 100);
          mp = (5 * doy + 2) div 153;
          d = doy - (153 * mp + 2) div 5 + 1;
          m = (if mp < 10 then mp + 3 else mp - 9);
          y = yoe + era * 400 + (if m \<le> 2 then 1 else 0)
      in (y, m, d))"

definition yearString :: "int \<Rightarrow> string" where
  "yearString y =
     (if 0 \<le> y \<and> y \<le> 9999 then digits 4 (nat y)
      else (if y < 0 then ''-'' else ''+'') @ digits 6 (nat \<bar>y\<bar>))"

definition toISOString :: "int \<Rightarrow> js_error + string" where
  "toISOString ms =
     (if \<bar>ms\<bar> > 8640000000000000 then Inl RangeError
      else
        let r = ms mod 86400000;
            (y, m, d) = civil (ms div 86400000)
        in Inr (yearString y @ ''-'' @ digits 2 (nat m) @ ''-'' @ digits 2 (nat d) @ ''T''
                @ digits 2 (nat (r div 3600000)) @ '':''
                @ digits 2 (nat (r div 60000 mod 60)) @ '':''
                @ digits 2 (nat (r div 1000 mod 60)) @ ''.''
                @ digits 3 (nat (r mod 1000)) @ ''Z''))"

subsection \<open>The records of the RPC response\<close>

text \<open>
  The types of \<^verbatim>\<open>@solana/web3.js\<close> that the function reads, with the fields it reads.
  A field that the source guards before use (\<^verbatim>\<open>meta.preBalances && ...\<close>,
  \<^verbatim>\<open>uiTokenAmount?.amount\<close>, \<^verbatim>\<open>staticAccountKeys || []\<close>) is optional here, so that
  each guard is a branch of the model.
\<close>

type_synonym PublicKey = string

record TokenAmount =
  amount :: "string option"
  decimals :: "int option"

record TokenBalance =
  accountIndex :: nat
  mint :: string
  owner :: "string option"
  uiTokenAmount :: "TokenAmount option"

record LoadedAddresses =
  writable :: "PublicKey list"
  readonly :: "PublicKey list"

record ConfirmedTransactionMeta =
  preBalances :: "int list option"
  postBalances :: "int list option"
  preTokenBalances :: "TokenBalance list option"
  postTokenBalances :: "TokenBalance list option"
  loadedAddresses :: "LoadedAddresses option"

record MessageCompiledInstruction =
  programIdIndex :: nat
  accountKeyIndexes :: "nat list option"

text \<open>
  A \<^verbatim>\<open>VersionedMessage\<close>. The method \<^verbatim>\<open>getAccountKeys\<close> belongs to the library, not to
  this repository, so it is a field of the message: a function of its optional argument
  (the addresses loaded from lookup tables) that either raises or returns the flattened
  key list of a \<^verbatim>\<open>MessageAccountKeys\<close>.
\<close>

record Message =
  getAccountKeys :: "LoadedAddresses option \<Rightarrow> js_error + PublicKey list"
  staticAccountKeys :: "PublicKey list option"
  compiledInstructions :: "MessageCompiledInstruction list option"

record Transaction =
  message :: "Message option"
  signatures :: "string list"

record VersionedTransactionResponse =
  slot :: int
  blockTime :: "int option"
  transaction :: Transaction
  meta :: "ConfirmedTransactionMeta option"

text \<open>The object that \<^verbatim>\<open>extractRelevantTxData\<close> returns.\<close>

record TransferSummary =
  signature :: "string option"
  solscanUrl :: string
  date :: "string option"
  sender :: "PublicKey option"
  receiver :: "PublicKey option"
  amount :: "jsnum option"
  tokenMint :: "string option"
  slot :: int

subsection \<open>The steps of \<^verbatim>\<open>extractRelevantTxData\<close>\<close>

text \<open>Line 277: \<^verbatim>\<open>blockTime ? new Date(blockTime * 1000).toISOString() : null\<close>.\<close>

definition dateOf :: "int option \<Rightarrow> js_error + string option" where
  "dateOf bt =
     (case bt of
        None \<Rightarrow> Inr None
      | Some b \<Rightarrow>
          (if b = 0 then Inr None
           else (case toISOString (b * 1000) of Inl e \<Rightarrow> Inl e | Inr s \<Rightarrow> Inr (Some s))))"

text \<open>
  Lines 279 to 288: the first entry of each token-balance list that the wallet owns,
  looked for only when the metadata has both lists.
\<close>

definition ownedBy :: "string \<Rightarrow> TokenBalance \<Rightarrow> bool" where
  "ownedBy walletAddress b = (owner b = Some walletAddress)"

definition tokenBalances ::
  "ConfirmedTransactionMeta option \<Rightarrow> string \<Rightarrow> TokenBalance option \<times> TokenBalance option"
where
  "tokenBalances mt walletAddress =
     (case mt of
        None \<Rightarrow> (None, None)
      | Some m \<Rightarrow>
          (case preTokenBalances m of
             None \<Rightarrow> (None, None)
           | Some pre \<Rightarrow>
               (case postTokenBalances m of
                  None \<Rightarrow> (None, None)
                | Some post \<Rightarrow>
                    (List.find (ownedBy walletAddress) pre,
                     List.find (ownedBy walletAddress) post))))"

text \<open>
  Lines 290 to 299: the account keys. \<^verbatim>\<open>getAccountKeys()\<close> is called without an
  argument; when it raises, the \<^verbatim>\<open>catch\<close> block takes the static keys of the message.
\<close>

definition accountKeys :: "Transaction \<Rightarrow> PublicKey list" where
  "accountKeys t =
     (case message t of
        None \<Rightarrow> []
      | Some m \<Rightarrow>
          (case getAccountKeys m None of
             Inr keys \<Rightarrow> keys
           | Inl e \<Rightarrow> (case staticAccountKeys m of None \<Rightarrow> [] | Some keys \<Rightarrow> keys)))"

text \<open>\<^verbatim>\<open>MessageAccountKeys.get\<close>: \<^verbatim>\<open>undefined\<close> past the end.\<close>

definition keyAt :: "PublicKey list \<Rightarrow> nat \<Rightarrow> PublicKey option" where
  "keyAt keys i = (if i < length keys then Some (keys ! i) else None)"

text \<open>
  Lines 304 to 311: the loop that looks for the wallet among the keys, from index \<open>i\<close>
  on; \<open>-1\<close> when the wallet is not there.
\<close>

fun accountIndexFrom :: "nat \<Rightarrow> PublicKey list \<Rightarrow> string \<Rightarrow> int" where
  "accountIndexFrom i [] walletAddress = - 1"
| "accountIndexFrom i (key # keys) walletAddress =
     (if key = walletAddress then int i else accountIndexFrom (Suc i) keys walletAddress)"

text \<open>Lines 301 to 316: \<^verbatim>\<open>preBalance\<close> and \<^verbatim>\<open>postBalance\<close>.\<close>

definition nativeBalances ::
  "ConfirmedTransactionMeta option \<Rightarrow> PublicKey list \<Rightarrow> string \<Rightarrow> int jsval \<times> int jsval"
where
  "nativeBalances mt keys walletAddress =
     (case mt of
        None \<Rightarrow> (Null, Null)
      | Some m \<Rightarrow>
          (let accountIndex = accountIndexFrom 0 keys walletAddress in
           if accountIndex \<noteq> - 1 then
             (case preBalances m of
                None \<Rightarrow> (Null, Null)
              | Some pre \<Rightarrow>
                  (case postBalances m of
                     None \<Rightarrow> (Null, Null)
                   | Some post \<Rightarrow> (Array_get pre accountIndex, Array_get post accountIndex)))
           else (Null, Null)))"

text \<open>
  Lines 323 to 328: the loop over the compiled instructions, which stops at the first
  one with more than one account index.
\<close>

fun receiverOf :: "PublicKey list \<Rightarrow> MessageCompiledInstruction list \<Rightarrow> PublicKey option" where
  "receiverOf keys [] = None"
| "receiverOf keys (ix # ixs) =
     (case accountKeyIndexes ix of
        None \<Rightarrow> receiverOf keys ixs
      | Some idx \<Rightarrow> if length idx > 1 then keyAt keys (idx ! 1) else receiverOf keys ixs)"

text \<open>Lines 318 to 329: \<^verbatim>\<open>sender\<close> and \<^verbatim>\<open>receiver\<close>.\<close>

definition senderReceiver ::
  "Transaction \<Rightarrow> PublicKey list \<Rightarrow> PublicKey option \<times> PublicKey option"
where
  "senderReceiver t keys =
     (case message t of
        None \<Rightarrow> (None, None)
      | Some m \<Rightarrow>
          (keyAt keys 0,
           receiverOf keys (case compiledInstructions m of None \<Rightarrow> [] | Some ixs \<Rightarrow> ixs)))"

text \<open>
  \<^verbatim>\<open>b.uiTokenAmount?.amount || "0"\<close> and \<^verbatim>\<open>b.uiTokenAmount?.decimals || 0\<close>: a missing
  field and a falsy one (the empty string, zero) give the default.
\<close>

definition rawAmount :: "TokenBalance \<Rightarrow> string" where
  "rawAmount b =
     (case uiTokenAmount b of
        None \<Rightarrow> ''0''
      | Some ta \<Rightarrow>
          (case TokenAmount.amount ta of None \<Rightarrow> ''0'' | Some a \<Rightarrow> if a = [] then ''0'' else a))"

definition decimalsOf :: "TokenBalance \<Rightarrow> int" where
  "decimalsOf b =
     (case uiTokenAmount b of
        None \<Rightarrow> 0
      | Some ta \<Rightarrow> (case decimals ta of None \<Rightarrow> 0 | Some d \<Rightarrow> d))"

text \<open>Lines 331 to 342: \<^verbatim>\<open>amount\<close> and \<^verbatim>\<open>tokenMint\<close>.\<close>

definition amountAndMint ::
  "TokenBalance option \<Rightarrow> TokenBalance option \<Rightarrow> int jsval \<Rightarrow> int jsval
     \<Rightarrow> jsnum option \<times> string option"
where
  "amountAndMint preTokenBalance postTokenBalance preBalance postBalance =
     (case (preTokenBalance, postTokenBalance) of
        (Some p, Some q) \<Rightarrow>
          (Some (js_div_pos (js_sub (Number_js (rawAmount q)) (Number_js (rawAmount p)))
                   (pow10 (decimalsOf p))),
           Some (mint p))
      | _ \<Rightarrow>
          (if preBalance \<noteq> Null \<and> postBalance \<noteq> Null then
             (Some (js_div_pos (js_sub (toNumber postBalance) (toNumber preBalance)) (10 ^ 9)),
              Some ''SOL'')
           else (None, None)))"

subsection \<open>The function\<close>

definition extractRelevantTxData ::
  "VersionedTransactionResponse option \<Rightarrow> string \<Rightarrow> js_error + TransferSummary option"
where
  "extractRelevantTxData tx walletAddress =
     (case tx of
        None \<Rightarrow> Inr None
      | Some t \<Rightarrow>
          (let sig = (case signatures (transaction t) of [] \<Rightarrow> None | s # _ \<Rightarrow> Some s);
               url = ''https://solscan.io/tx/''
                     @ (case sig of None \<Rightarrow> ''undefined'' | Some s \<Rightarrow> s)
           in case dateOf (blockTime t) of
                Inl e \<Rightarrow> Inl e
              | Inr dt \<Rightarrow>
                  (let (preTokenBalance, postTokenBalance) = tokenBalances (meta t) walletAddress;
                       keys = accountKeys (transaction t);
                       (preBalance, postBalance) = nativeBalances (meta t) keys walletAddress;
                       (sndr, rcvr) = senderReceiver (transaction t) keys;
                       (amt, tm) =
                         amountAndMint preTokenBalance postTokenBalance preBalance postBalance
                   in Inr (Some \<lparr>signature = sig, solscanUrl = url, date = dt,
                                 sender = sndr, receiver = rcvr, amount = amt, tokenMint = tm,
                                 slot = VersionedTransactionResponse.slot t\<rparr>))))"

subsection \<open>Example transactions\<close>

text \<open>
  A message in the legacy encoding resolves to its own key list whatever the argument.
  A version-0 message with address table lookups raises when \<^verbatim>\<open>getAccountKeys\<close> is called
  without the loaded addresses, and appends them to its static keys otherwise.
\<close>

definition ex_legacy :: "PublicKey list \<Rightarrow> MessageCompiledInstruction list \<Rightarrow> Message" where
  "ex_legacy keys ixs =
     \<lparr>getAccountKeys = (\<lambda>args. Inr keys), staticAccountKeys = Some keys,
      compiledInstructions = Some ixs\<rparr>"

definition ex_v0 :: "PublicKey list \<Rightarrow> MessageCompiledInstruction list \<Rightarrow> Message" where
  "ex_v0 keys ixs =
     \<lparr>getAccountKeys =
        (\<lambda>args. case args of
                  None \<Rightarrow> Inl Error
                | Some la \<Rightarrow> Inr (keys @ writable la @ readonly la)),
      staticAccountKeys = Some keys,
      compiledInstructions = Some ixs\<rparr>"

definition ex_ix :: "nat list \<Rightarrow> MessageCompiledInstruction" where
  "ex_ix idx = \<lparr>programIdIndex = 0, accountKeyIndexes = Some idx\<rparr>"

definition ex_balance :: "string \<Rightarrow> string \<Rightarrow> string \<Rightarrow> int \<Rightarrow> TokenBalance" where
  "ex_balance own mnt amt dec =
     \<lparr>accountIndex = 1, mint = mnt, owner = Some own,
      uiTokenAmount = Some \<lparr>TokenAmount.amount = Some amt, decimals = Some dec\<rparr>\<rparr>"

text \<open>A token transfer to the wallet, whose native balance is in the metadata too.\<close>

definition ex_token_meta :: ConfirmedTransactionMeta where
  "ex_token_meta =
     \<lparr>preBalances = Some [5000000000, 2000000000, 1],
      postBalances = Some [4999995000, 2000000000, 1],
      preTokenBalances = Some [ex_balance ''Other'' ''MintB'' ''7'' 0,
                               ex_balance ''Wallet'' ''MintA'' ''1000000'' 6],
      postTokenBalances = Some [ex_balance ''Wallet'' ''MintA'' ''1500000'' 6],
      loadedAddresses = None\<rparr>"

definition ex_token_tx :: VersionedTransactionResponse where
  "ex_token_tx =
     \<lparr>VersionedTransactionResponse.slot = 100, blockTime = Some 1700000000,
      transaction =
        \<lparr>message = Some (ex_legacy [''Payer'', ''Wallet'', ''Program''] [ex_ix [0, 1]]),
         signatures = [''sig1'']\<rparr>,
      meta = Some ex_token_meta\<rparr>"

text \<open>A native transfer of one SOL out of the wallet.\<close>

definition ex_native_meta :: ConfirmedTransactionMeta where
  "ex_native_meta =
     \<lparr>preBalances = Some [5000000000, 0, 1],
      postBalances = Some [4000000000, 1000000000, 1],
      preTokenBalances = Some [], postTokenBalances = Some [],
      loadedAddresses = None\<rparr>"

definition ex_native_tx :: VersionedTransactionResponse where
  "ex_native_tx =
     \<lparr>VersionedTransactionResponse.slot = 101, blockTime = None,
      transaction =
        \<lparr>message = Some (ex_legacy [''Wallet'', ''Dest'', ''System''] [ex_ix [0, 1]]),
         signatures = [''sig2'']\<rparr>,
      meta = Some ex_native_meta\<rparr>"

text \<open>A version-0 transaction whose lookup tables were not resolved.\<close>

definition ex_v0_meta :: ConfirmedTransactionMeta where
  "ex_v0_meta =
     \<lparr>preBalances = Some [10, 20, 30], postBalances = Some [5, 20, 35],
      preTokenBalances = None, postTokenBalances = None,
      loadedAddresses = Some \<lparr>writable = [''Looked''], readonly = []\<rparr>\<rparr>"

definition ex_v0_message :: Message where
  "ex_v0_message = ex_v0 [''Payer'', ''Wallet''] [ex_ix [0, 2]]"

definition ex_v0_tx :: VersionedTransactionResponse where
  "ex_v0_tx =
     \<lparr>VersionedTransactionResponse.slot = 102, blockTime = Some 1700000000,
      transaction = \<lparr>message = Some ex_v0_message, signatures = [''sig3'']\<rparr>,
      meta = Some ex_v0_meta\<rparr>"

text \<open>Three instructions, the second of which is the first with two accounts or more.\<close>

definition ex_multi_tx :: VersionedTransactionResponse where
  "ex_multi_tx =
     \<lparr>VersionedTransactionResponse.slot = 103, blockTime = None,
      transaction =
        \<lparr>message =
           Some (ex_legacy [''A0'', ''A1'', ''A2'', ''A3'', ''A4'', ''A5'', ''A6'', ''A7'']
                   [ex_ix [3], ex_ix [2, 5, 7], ex_ix [0, 1]]),
         signatures = [''sig4'']\<rparr>,
      meta = None\<rparr>"

text \<open>Block times at the epoch and beyond the range of \<^verbatim>\<open>Date\<close>.\<close>

definition ex_epoch_tx :: VersionedTransactionResponse where
  "ex_epoch_tx = ex_native_tx\<lparr>blockTime := Some 0\<rparr>"

definition ex_epoch_nometa_tx :: VersionedTransactionResponse where
  "ex_epoch_nometa_tx = ex_multi_tx\<lparr>blockTime := Some 0\<rparr>"

definition ex_far_future_tx :: VersionedTransactionResponse where
  "ex_far_future_tx = ex_multi_tx\<lparr>blockTime := Some 10000000000000\<rparr>"

definition ex_far_past_tx :: VersionedTransactionResponse where
  "ex_far_past_tx = ex_native_tx\<lparr>blockTime := Some (- 10000000000000)\<rparr>"

definition ex_far_past_nometa_tx :: VersionedTransactionResponse where
  "ex_far_past_nometa_tx = ex_multi_tx\<lparr>blockTime := Some (- 10000000000000)\<rparr>"

section \<open>Auxiliary facts\<close>

lemma extract_None: "extractRelevantTxData None w = Inr None"
  by (simp add: extractRelevantTxData_def)

lemma extract_raises:
  "dateOf (blockTime t) = Inl e \<Longrightarrow> extractRelevantTxData (Some t) w = Inl e"
  by (simp add: extractRelevantTxData_def Let_def)

lemma extract_returns:
  "dateOf (blockTime t) = Inr d \<Longrightarrow>
   extractRelevantTxData (Some t) w =
     Inr (Some \<lparr>signature = (case signatures (transaction t) of [] \<Rightarrow> None | s # _ \<Rightarrow> Some s),
        solscanUrl = ''https://solscan.io/tx/''
          @ (case signatures (transaction t) of [] \<Rightarrow> ''undefined'' | s # _ \<Rightarrow> s),
        date = d,
        sender = fst (senderReceiver (transaction t) (accountKeys (transaction t))),
        receiver = snd (senderReceiver (transaction t) (accountKeys (transaction t))),
        amount = fst (amountAndMint (fst (tokenBalances (meta t) w)) (snd (tokenBalances (meta t) w))
                   (fst (nativeBalances (meta t) (accountKeys (transaction t)) w))
                   (snd (nativeBalances (meta t) (accountKeys (transaction t)) w))),
        tokenMint = snd (amountAndMint (fst (tokenBalances (meta t) w)) (snd (tokenBalances (meta t) w))
                   (fst (nativeBalances (meta t) (accountKeys (transaction t)) w))
                   (snd (nativeBalances (meta t) (accountKeys (transaction t)) w))),
        slot = VersionedTransactionResponse.slot t\<rparr>)"
  by (simp add: extractRelevantTxData_def Let_def split: prod.splits list.splits)

lemma extract_date:
  "extractRelevantTxData (Some t) w = Inr r \<Longrightarrow> \<exists>d. dateOf (blockTime t) = Inr d"
  by (cases "dateOf (blockTime t)") (simp_all add: extract_raises)

lemma extract_fields:
  assumes "extractRelevantTxData (Some t) w = Inr (Some s)"
  shows "dateOf (blockTime t) = Inr (date s)"
    and "signature s = (case signatures (transaction t) of [] \<Rightarrow> None | x # _ \<Rightarrow> Some x)"
    and "solscanUrl s = ''https://solscan.io/tx/''
          @ (case signatures (transaction t) of [] \<Rightarrow> ''undefined'' | x # _ \<Rightarrow> x)"
    and "sender s = fst (senderReceiver (transaction t) (accountKeys (transaction t)))"
    and "receiver s = snd (senderReceiver (transaction t) (accountKeys (transaction t)))"
    and "amount s = fst (amountAndMint (fst (tokenBalances (meta t) w)) (snd (tokenBalances (meta t) w))
                   (fst (nativeBalances (meta t) (accountKeys (transaction t)) w))
                   (snd (nativeBalances (meta t) (accountKeys (transaction t)) w)))"
    and "tokenMint s = snd (amountAndMint (fst (tokenBalances (meta t) w)) (snd (tokenBalances (meta t) w))
                   (fst (nativeBalances (meta t) (accountKeys (transaction t)) w))
                   (snd (nativeBalances (meta t) (accountKeys (transaction t)) w)))"
    and "slot s = VersionedTransactionResponse.slot t"
proof -
  from assms obtain d where d: "dateOf (blockTime t) = Inr d"
    using extract_date by blast
  from assms extract_returns [OF d, of w]
  have s: "s = \<lparr>signature = (case signatures (transaction t) of [] \<Rightarrow> None | s # _ \<Rightarrow> Some s),
        solscanUrl = ''https://solscan.io/tx/''
          @ (case signatures (transaction t) of [] \<Rightarrow> ''undefined'' | s # _ \<Rightarrow> s),
        date = d,
        sender = fst (senderReceiver (transaction t) (accountKeys (transaction t))),
        receiver = snd (senderReceiver (transaction t) (accountKeys (transaction t))),
        amount = fst (amountAndMint (fst (tokenBalances (meta t) w)) (snd (tokenBalances (meta t) w))
                   (fst (nativeBalances (meta t) (accountKeys (transaction t)) w))
                   (snd (nativeBalances (meta t) (accountKeys (transaction t)) w))),
        tokenMint = snd (amountAndMint (fst (tokenBalances (meta t) w)) (snd (tokenBalances (meta t) w))
                   (fst (nativeBalances (meta t) (accountKeys (transaction t)) w))
                   (snd (nativeBalances (meta t) (accountKeys (transaction t)) w))),
        slot = VersionedTransactionResponse.slot t\<rparr>"
    by simp
  show "dateOf (blockTime t) = Inr (date s)" by (simp add: s d)
  show "signature s = (case signatures (transaction t) of [] \<Rightarrow> None | x # _ \<Rightarrow> Some x)"
    by (simp add: s)
  show "solscanUrl s = ''https://solscan.io/tx/''
          @ (case signatures (transaction t) of [] \<Rightarrow> ''undefined'' | x # _ \<Rightarrow> x)"
    by (simp add: s)
  show "sender s = fst (senderReceiver (transaction t) (accountKeys (transaction t)))"
    by (simp add: s)
  show "receiver s = snd (senderReceiver (transaction t) (accountKeys (transaction t)))"
    by (simp add: s)
  show "amount s = fst (amountAndMint (fst (tokenBalances (meta t) w)) (snd (tokenBalances (meta t) w))
                   (fst (nativeBalances (meta t) (accountKeys (transaction t)) w))
                   (snd (nativeBalances (meta t) (accountKeys (transaction t)) w)))"
    by (simp add: s)
  show "tokenMint s = snd (amountAndMint (fst (tokenBalances (meta t) w)) (snd (tokenBalances (meta t) w))
                   (fst (nativeBalances (meta t) (accountKeys (transaction t)) w))
                   (snd (nativeBalances (meta t) (accountKeys (transaction t)) w)))"
    by (simp add: s)
  show "slot s = VersionedTransactionResponse.slot t" by (simp add: s)
qed

text \<open>
  On a non-empty string of decimal digits, which is what the RPC sends as a raw token
  amount, \<open>Number_js\<close> is the number the digits denote.
\<close>

lemma digitIn_digit: "isDigit c \<Longrightarrow> digitIn 10 c = Some (of_char c - 48)"
  by (auto simp: isDigit_def digitIn_def Let_def)

lemma digitsIn_digits:
  "list_all isDigit ds \<Longrightarrow>
   digitsIn 10 acc ds = Some (foldl (\<lambda>a c. 10 * a + (of_char c - 48)) acc ds)"
  by (induction ds arbitrary: acc) (simp_all add: digitIn_digit)

lemma isDigit_not_space: "isDigit c \<Longrightarrow> \<not> isWhiteSpace c"
  by (auto simp: isDigit_def isWhiteSpace_def)

lemma trim_digits:
  assumes "list_all isDigit ds"
  shows "trim ds = ds"
proof (cases ds rule: rev_cases)
  case Nil
  then show ?thesis by (simp add: trim_def)
next
  case (snoc ys y)
  with assms have y: "\<not> isWhiteSpace y" by (simp add: isDigit_not_space)
  show ?thesis
  proof (cases ds)
    case Nil
    with snoc show ?thesis by simp
  next
    case (Cons x xs)
    with assms have "\<not> isWhiteSpace x" by (simp add: isDigit_not_space)
    with Cons have "dropWhile isWhiteSpace ds = ds" by simp
    with snoc y show ?thesis by (simp add: trim_def)
  qed
qed

lemma nonDecimalLiteral_digits:
  assumes "list_all isDigit ds"
  shows "nonDecimalLiteral ds = None"
proof (cases ds)
  case Nil
  then show ?thesis by (simp add: nonDecimalLiteral_def)
next
  case (Cons z zs)
  show ?thesis
  proof (cases zs)
    case Nil
    with Cons show ?thesis by (simp add: nonDecimalLiteral_def)
  next
    case (Cons p ps)
    with assms \<open>ds = z # zs\<close> have "isDigit p" by simp
    then have "p \<noteq> CHR ''x''" "p \<noteq> CHR ''X''" "p \<noteq> CHR ''o''" "p \<noteq> CHR ''O''"
      "p \<noteq> CHR ''b''" "p \<noteq> CHR ''B''"
      by (auto simp: isDigit_def)
    with Cons \<open>ds = z # zs\<close> show ?thesis by (simp add: nonDecimalLiteral_def)
  qed
qed

lemma strUnsignedDecimalLiteral_digits:
  assumes "list_all isDigit ds" and "ds \<noteq> []"
  shows "strUnsignedDecimalLiteral ds = Num (of_nat (digitsVal ds))"
proof -
  have "\<not> isDigit CHR ''I''" by (simp add: isDigit_def)
  with assms(1) have ne: "ds \<noteq> ''Infinity''" by auto
  have tw: "takeWhile isDigit ds = ds" and dw: "dropWhile isDigit ds = []"
    using assms(1) by (simp_all add: list_all_iff)
  show ?thesis
    using ne assms(2)
    by (simp add: strUnsignedDecimalLiteral_def tw dw exponentPart_def pow10_def digitsVal_def)
qed

lemma Number_js_digits:
  assumes "list_all isDigit ds" and "ds \<noteq> []"
  shows "Number_js ds = Num (of_nat (foldl (\<lambda>a c. 10 * a + (of_char c - 48)) 0 ds))"
proof -
  obtain c cs where ds: "ds = c # cs" using assms(2) by (cases ds) auto
  with assms(1) have "isDigit c" by simp
  then have c: "c \<noteq> CHR ''+''" "c \<noteq> CHR ''-''" by (auto simp: isDigit_def)
  have t: "trim (c # cs) = c # cs" and n: "nonDecimalLiteral (c # cs) = None"
    using trim_digits [OF assms(1)] nonDecimalLiteral_digits [OF assms(1)] by (simp_all add: ds)
  have "Number_js ds = strUnsignedDecimalLiteral ds"
    using c by (simp add: Number_js_def ds t n)
  then show ?thesis
    by (simp add: strUnsignedDecimalLiteral_digits [OF assms]
        digitsVal_def digitsIn_digits [OF assms(1)])
qed





lemmas Number_js_eval =
  Number_js_def trim_def isWhiteSpace_def nonDecimalLiteral_def strUnsignedDecimalLiteral_def
  isDigit_def exponentPart_def digitsVal_def digitIn_def pow10_def

lemmas extract_eval =
  extractRelevantTxData_def dateOf_def tokenBalances_def ownedBy_def accountKeys_def keyAt_def
  nativeBalances_def senderReceiver_def rawAmount_def decimalsOf_def amountAndMint_def
  Array_get_def Let_def

lemmas ex_defs =
  ex_legacy_def ex_v0_def ex_ix_def ex_balance_def ex_token_meta_def ex_token_tx_def
  ex_native_meta_def ex_native_tx_def ex_v0_meta_def ex_v0_message_def ex_v0_tx_def
  ex_multi_tx_def ex_epoch_tx_def ex_epoch_nometa_tx_def ex_far_future_tx_def
  ex_far_past_tx_def ex_far_past_nometa_tx_def

lemma toISOString_2023: "toISOString (1700000000 * 1000) = Inr ''2023-11-14T22:13:20.000Z''"
  by code_simp

lemma toISOString_far_future: "toISOString (10000000000000 * 1000) = Inl RangeError"
  by (simp add: toISOString_def)

lemma toISOString_far_past: "toISOString (- 10000000000000 * 1000) = Inl RangeError"
  by (simp add: toISOString_def)

lemma Number_js_1000000: "Number_js ''1000000'' = Num 1000000"
  by (simp add: Number_js_digits isDigit_def)

lemma Number_js_1500000: "Number_js ''1500000'' = Num 1500000"
  by (simp add: Number_js_digits isDigit_def)

lemma ex_token_result:
  "extractRelevantTxData (Some ex_token_tx) ''Wallet'' =
     Inr (Some \<lparr>signature = Some ''sig1'', solscanUrl = ''https://solscan.io/tx/sig1'',
                 date = Some ''2023-11-14T22:13:20.000Z'', sender = Some ''Payer'',
                 receiver = Some ''Wallet'', amount = Some (Num (1 / 2)),
                 tokenMint = Some ''MintA'', slot = 100\<rparr>)"
  using toISOString_2023
  by (simp add: extract_eval ex_defs Number_js_1000000 Number_js_1500000 pow10_def)


lemma ex_v0_result:
  "extractRelevantTxData (Some ex_v0_tx) ''Wallet'' =
     Inr (Some \<lparr>signature = Some ''sig3'', solscanUrl = ''https://solscan.io/tx/sig3'',
                 date = Some ''2023-11-14T22:13:20.000Z'', sender = Some ''Payer'',
                 receiver = None, amount = Some (Num 0),
                 tokenMint = Some ''SOL'', slot = 102\<rparr>)"
  using toISOString_2023
  by (simp add: extract_eval ex_defs)

lemma ex_multi_result:
  "extractRelevantTxData (Some ex_multi_tx) ''A2'' =
     Inr (Some \<lparr>signature = Some ''sig4'', solscanUrl = ''https://solscan.io/tx/sig4'',
                 date = None, sender = Some ''A0'', receiver = Some ''A5'',
                 amount = None, tokenMint = None, slot = 103\<rparr>)"
  by (simp add: extract_eval ex_defs)

lemma ex_epoch_result:
  "extractRelevantTxData (Some ex_epoch_tx) ''Wallet'' =
     Inr (Some \<lparr>signature = Some ''sig2'', solscanUrl = ''https://solscan.io/tx/sig2'',
                 date = None, sender = Some ''Wallet'', receiver = Some ''Dest'',
                 amount = Some (Num (- 1)), tokenMint = Some ''SOL'', slot = 101\<rparr>)"
  by (simp add: extract_eval ex_defs)

lemma ex_epoch_nometa_result:
  "extractRelevantTxData (Some ex_epoch_nometa_tx) ''A2'' =
     Inr (Some \<lparr>signature = Some ''sig4'', solscanUrl = ''https://solscan.io/tx/sig4'',
                 date = None, sender = Some ''A0'', receiver = Some ''A5'',
                 amount = None, tokenMint = None, slot = 103\<rparr>)"
  by (simp add: extract_eval ex_defs)

lemma ex_far_future_result:
  "extractRelevantTxData (Some ex_far_future_tx) ''A2'' = Inl RangeError"
  using toISOString_far_future by (simp add: extract_eval ex_defs)

lemma ex_far_past_result:
  "extractRelevantTxData (Some ex_far_past_tx) ''Wallet'' = Inl RangeError"
  using toISOString_far_past by (simp add: extract_eval ex_defs)


lemma accountIndexFrom_absent:
  "w \<notin> set keys \<Longrightarrow> accountIndexFrom n keys w = - 1"
  by (induction keys arbitrary: n) auto

lemma receiverOf_first:
  assumes "\<forall>j\<in>set before. \<forall>l. accountKeyIndexes j = Some l \<longrightarrow> length l < 2"
    and "accountKeyIndexes ix = Some idx"
    and "2 \<le> length idx"
  shows "receiverOf keys (before @ ix # after) = keyAt keys (idx ! 1)"
  using assms
proof (induction before)
  case Nil
  then show ?case by simp
next
  case (Cons j before)
  then show ?case by (cases "accountKeyIndexes j") auto
qed

lemma receiverOf_none:
  "\<forall>j\<in>set ixs. \<forall>l. accountKeyIndexes j = Some l \<longrightarrow> length l < 2 \<Longrightarrow>
   receiverOf keys ixs = None"
proof (induction ixs)
  case Nil
  then show ?case by simp
next
  case (Cons j ixs)
  then show ?case by (cases "accountKeyIndexes j") auto
qed

lemma accountKeys_no_message: "message tr = None \<Longrightarrow> accountKeys tr = []"
  by (simp add: accountKeys_def)

lemma accountKeys_catch:
  "message tr = Some m \<Longrightarrow> getAccountKeys m None = Inl e \<Longrightarrow>
   accountKeys tr = (case staticAccountKeys m of None \<Rightarrow> [] | Some keys \<Rightarrow> keys)"
  by (simp add: accountKeys_def)

lemma dateOf_in_range:
  "(case bt of None \<Rightarrow> True | Some b \<Rightarrow> \<bar>b * 1000\<bar> \<le> 8640000000000000) \<Longrightarrow>
   \<exists>d. dateOf bt = Inr d"
  by (cases bt) (simp_all add: dateOf_def toISOString_def Let_def split: prod.splits)

lemma dateOf_out_of_range:
  "bt = Some b \<Longrightarrow> 8640000000000000 < \<bar>b * 1000\<bar> \<Longrightarrow> dateOf bt = Inl RangeError"
  by (auto simp: dateOf_def toISOString_def)

lemma dateOf_None_iff:
  "dateOf bt = Inr d \<Longrightarrow> d = None \<longleftrightarrow> bt = None \<or> bt = Some 0"
  by (cases bt) (auto simp: dateOf_def split: if_splits sum.splits)

lemma dateOf_Some:
  "dateOf (Some b) = Inr d \<Longrightarrow> b \<noteq> 0 \<Longrightarrow> \<exists>iso. d = Some iso \<and> toISOString (b * 1000) = Inr iso"
  by (auto simp: dateOf_def split: if_splits sum.splits)

lemma toISOString_epoch: "toISOString (0 * 1000) = Inr ''1970-01-01T00:00:00.000Z''"
  by code_simp

lemma ex_far_past_nometa_result:
  "extractRelevantTxData (Some ex_far_past_nometa_tx) ''A2'' = Inl RangeError"
  using toISOString_far_past by (simp add: extract_eval ex_defs)

section \<open>The claims\<close>

subsection \<open>Amount and asset\<close>





subsection \<open>Resolution of the account keys\<close>

text \<open>
  Claim C3. When \<^verbatim>\<open>getAccountKeys()\<close> raises, the error does not leave the function: the
  account keys are the static keys of the message (none when the message has no such
  list), and the function goes on with them. Its result is the one it gives for the same
  transaction with a message that resolves to the static keys; when \<^verbatim>\<open>blockTime\<close> is
  absent or within the range of \<^verbatim>\<open>Date\<close> this is a summary whose sender and receiver are
  taken from the static keys.
\<close>

theorem account_keys_fallback:
  assumes "message (transaction t) = Some m"
    and "getAccountKeys m None = Inl e"
    and "static = (case staticAccountKeys m of None \<Rightarrow> [] | Some keys \<Rightarrow> keys)"
  shows "accountKeys (transaction t) = static
         \<and> extractRelevantTxData (Some t) w =
             extractRelevantTxData
               (Some (t\<lparr>transaction :=
                  (transaction t)\<lparr>message := Some (m\<lparr>getAccountKeys := \<lambda>args. Inr static\<rparr>)\<rparr>\<rparr>)) w
         \<and> ((case blockTime t of None \<Rightarrow> True | Some b \<Rightarrow> \<bar>b * 1000\<bar> \<le> 8640000000000000)
              \<longrightarrow>
               (\<exists>s. extractRelevantTxData (Some t) w = Inr (Some s)
                  \<and> sender s = (case static of [] \<Rightarrow> None | key # _ \<Rightarrow> Some key)
                  \<and> receiver s =
                      receiverOf static
                        (case compiledInstructions m of None \<Rightarrow> [] | Some ixs \<Rightarrow> ixs)))"
proof -
  let ?t' = "t\<lparr>transaction :=
                (transaction t)\<lparr>message := Some (m\<lparr>getAccountKeys := \<lambda>args. Inr static\<rparr>)\<rparr>\<rparr>"
  have k: "accountKeys (transaction t) = static"
    using assms by (simp add: accountKeys_catch)
  let ?tr' = "(transaction t)\<lparr>message := Some (m\<lparr>getAccountKeys := \<lambda>args. Inr static\<rparr>)\<rparr>"
  have k': "accountKeys ?tr' = static"
    by (simp add: accountKeys_def)
  have sr: "senderReceiver ?tr' static = senderReceiver (transaction t) static"
    using assms(1) by (simp add: senderReceiver_def)
  have same: "extractRelevantTxData (Some t) w = extractRelevantTxData (Some ?t') w"
  proof (cases "dateOf (blockTime t)")
    case (Inl a)
    then show ?thesis by (simp add: extract_raises)
  next
    case (Inr d)
    then have "dateOf (blockTime ?t') = Inr d" by simp
    from extract_returns [OF Inr, of w] extract_returns [OF this, of w]
    show ?thesis by (simp add: k k' sr)
  qed
  have ret: "\<exists>s. extractRelevantTxData (Some t) w = Inr (Some s)
                  \<and> sender s = (case static of [] \<Rightarrow> None | key # _ \<Rightarrow> Some key)
                  \<and> receiver s =
                      receiverOf static
                        (case compiledInstructions m of None \<Rightarrow> [] | Some ixs \<Rightarrow> ixs)"
    if "case blockTime t of None \<Rightarrow> True | Some b \<Rightarrow> \<bar>b * 1000\<bar> \<le> 8640000000000000"
  proof -
    from dateOf_in_range [OF that] obtain d where "dateOf (blockTime t) = Inr d" ..
    from extract_returns [OF this, of w] assms(1) show ?thesis
      by (cases static) (simp_all add: k senderReceiver_def keyAt_def)
  qed
  from k same ret show ?thesis by blast
qed

theorem account_keys_fallback_witness:
  "getAccountKeys ex_v0_message None = Inl Error
   \<and> accountKeys (transaction ex_v0_tx) = [''Payer'', ''Wallet'']
   \<and> extractRelevantTxData (Some ex_v0_tx) ''Wallet'' =
       Inr (Some \<lparr>signature = Some ''sig3'', solscanUrl = ''https://solscan.io/tx/sig3'',
                   date = Some ''2023-11-14T22:13:20.000Z'', sender = Some ''Payer'',
                   receiver = None, amount = Some (Num 0),
                   tokenMint = Some ''SOL'', slot = 102\<rparr>)"
proof -
  have m: "message (transaction ex_v0_tx) = Some ex_v0_message"
    by (simp add: ex_v0_tx_def)
  have g: "getAccountKeys ex_v0_message None = Inl Error"
    by (simp add: ex_v0_message_def ex_v0_def)
  have st: "[''Payer'', ''Wallet''] =
      (case staticAccountKeys ex_v0_message of None \<Rightarrow> [] | Some keys \<Rightarrow> keys)"
    by (simp add: ex_v0_message_def ex_v0_def)
  from account_keys_fallback [OF m g st, of "''Wallet''"]
  have "accountKeys (transaction ex_v0_tx) = [''Payer'', ''Wallet'']"
    by blast
  with g ex_v0_result show ?thesis by simp
qed

subsection \<open>Independence from the metadata\<close>

text \<open>
  Claim C10. Two calls that differ only in the metadata of the transaction agree on
  whether they raise, and their summaries have the same sender and the same receiver:
  the account keys are computed from the message, by a call of \<^verbatim>\<open>getAccountKeys\<close>
  without argument, so the loaded addresses of the metadata are not read.
\<close>

theorem sender_receiver_ignore_meta:
  "map_sum id (map_option (\<lambda>s. (sender s, receiver s)))
     (extractRelevantTxData (Some (t\<lparr>meta := m1\<rparr>)) w)
   = map_sum id (map_option (\<lambda>s. (sender s, receiver s)))
       (extractRelevantTxData (Some (t\<lparr>meta := m2\<rparr>)) w)
   \<and> (\<forall>s1 s2. extractRelevantTxData (Some (t\<lparr>meta := m1\<rparr>)) w = Inr (Some s1)
         \<and> extractRelevantTxData (Some (t\<lparr>meta := m2\<rparr>)) w = Inr (Some s2)
         \<longrightarrow> sender s1 = sender s2 \<and> receiver s1 = receiver s2)"
proof -
  have eq: "map_sum id (map_option (\<lambda>s. (sender s, receiver s)))
     (extractRelevantTxData (Some (t\<lparr>meta := m1\<rparr>)) w)
   = map_sum id (map_option (\<lambda>s. (sender s, receiver s)))
       (extractRelevantTxData (Some (t\<lparr>meta := m2\<rparr>)) w)"
  proof (cases "dateOf (blockTime t)")
    case (Inl e)
    then show ?thesis by (simp add: extract_raises)
  next
    case (Inr d)
    then have d1: "dateOf (blockTime (t\<lparr>meta := m1\<rparr>)) = Inr d"
      and d2: "dateOf (blockTime (t\<lparr>meta := m2\<rparr>)) = Inr d"
      by simp_all
    show ?thesis
      by (simp add: extract_returns [OF d1] extract_returns [OF d2])
  qed
  have "sender s1 = sender s2 \<and> receiver s1 = receiver s2"
    if "extractRelevantTxData (Some (t\<lparr>meta := m1\<rparr>)) w = Inr (Some s1)"
      and "extractRelevantTxData (Some (t\<lparr>meta := m2\<rparr>)) w = Inr (Some s2)"
    for s1 s2
    using eq that by simp
  with eq show ?thesis by blast
qed

theorem sender_receiver_ignore_meta_witness:
  "extractRelevantTxData (Some (ex_v0_tx\<lparr>meta := Some ex_v0_meta\<rparr>)) ''Wallet'' =
     Inr (Some \<lparr>signature = Some ''sig3'', solscanUrl = ''https://solscan.io/tx/sig3'',
                 date = Some ''2023-11-14T22:13:20.000Z'', sender = Some ''Payer'',
                 receiver = None, amount = Some (Num 0),
                 tokenMint = Some ''SOL'', slot = 102\<rparr>)
   \<and> extractRelevantTxData (Some (ex_v0_tx\<lparr>meta := None\<rparr>)) ''Wallet'' =
     Inr (Some \<lparr>signature = Some ''sig3'', solscanUrl = ''https://solscan.io/tx/sig3'',
                 date = Some ''2023-11-14T22:13:20.000Z'', sender = Some ''Payer'',
                 receiver = None, amount = None, tokenMint = None, slot = 102\<rparr>)
   \<and> loadedAddresses ex_v0_meta = Some \<lparr>writable = [''Looked''], readonly = []\<rparr>"
proof -
  let ?s1 = "\<lparr>signature = Some ''sig3'', solscanUrl = ''https://solscan.io/tx/sig3'',
                 date = Some ''2023-11-14T22:13:20.000Z'', sender = Some ''Payer'',
                 receiver = None, amount = Some (Num 0),
                 tokenMint = Some ''SOL'', slot = 102\<rparr>"
  let ?s2 = "\<lparr>signature = Some ''sig3'', solscanUrl = ''https://solscan.io/tx/sig3'',
                 date = Some ''2023-11-14T22:13:20.000Z'', sender = Some ''Payer'',
                 receiver = None, amount = None, tokenMint = None, slot = 102\<rparr>"
  have r1: "extractRelevantTxData (Some (ex_v0_tx\<lparr>meta := Some ex_v0_meta\<rparr>)) ''Wallet''
              = Inr (Some ?s1)"
    using ex_v0_result by (simp add: ex_v0_tx_def)
  have r2: "extractRelevantTxData (Some (ex_v0_tx\<lparr>meta := None\<rparr>)) ''Wallet''
              = Inr (Some ?s2)"
    using toISOString_2023 by (simp add: extract_eval ex_defs)
  from sender_receiver_ignore_meta [where t = ex_v0_tx and ?m1.0 = "Some ex_v0_meta"
      and w = "''Wallet''" and ?m2.0 = None] r1 r2
  have "sender ?s1 = sender ?s2 \<and> receiver ?s1 = receiver ?s2"
    by blast
  with r1 r2 show ?thesis by (simp add: ex_v0_meta_def)
qed

subsection \<open>Sender and receiver\<close>

text \<open>
  Claim C6. The receiver is read off the first instruction, in order, that has two account
  indexes or more: it is the account key at the second of these indexes (no address when
  that index is past the end of the resolved keys). The instructions after it do not
  matter. When no instruction has two account indexes, the receiver is null.
\<close>

theorem receiver_first_multi_account:
  assumes "extractRelevantTxData (Some t) w = Inr (Some s)"
  shows "(\<forall>m before ix after idx.
            message (transaction t) = Some m
            \<and> compiledInstructions m = Some (before @ ix # after)
            \<and> (\<forall>j\<in>set before. \<forall>l. accountKeyIndexes j = Some l \<longrightarrow> length l < 2)
            \<and> accountKeyIndexes ix = Some idx \<and> 2 \<le> length idx
            \<longrightarrow> receiver s =
                  (if idx ! 1 < length (accountKeys (transaction t))
                   then Some (accountKeys (transaction t) ! (idx ! 1)) else None))
         \<and> ((case message (transaction t) of
                None \<Rightarrow> True
              | Some m \<Rightarrow>
                  (case compiledInstructions m of
                     None \<Rightarrow> True
                   | Some ixs \<Rightarrow>
                       \<forall>j\<in>set ixs. \<forall>l. accountKeyIndexes j = Some l \<longrightarrow> length l < 2))
             \<longrightarrow> receiver s = None)"
proof -
  note r = extract_fields(5) [OF assms]
  have first: "receiver s = (if idx ! 1 < length (accountKeys (transaction t))
                   then Some (accountKeys (transaction t) ! (idx ! 1)) else None)"
    if "message (transaction t) = Some m"
      and "compiledInstructions m = Some (before @ ix # after)"
      and "\<forall>j\<in>set before. \<forall>l. accountKeyIndexes j = Some l \<longrightarrow> length l < 2"
      and "accountKeyIndexes ix = Some idx" and "2 \<le> length idx"
    for m before ix after idx
    using r that(1,2) receiverOf_first [OF that(3-5)]
    by (simp add: senderReceiver_def keyAt_def)
  have none: "receiver s = None"
    if "case message (transaction t) of
          None \<Rightarrow> True
        | Some m \<Rightarrow>
            (case compiledInstructions m of
               None \<Rightarrow> True
             | Some ixs \<Rightarrow>
                 \<forall>j\<in>set ixs. \<forall>l. accountKeyIndexes j = Some l \<longrightarrow> length l < 2)"
    using r that by (auto simp: senderReceiver_def receiverOf_none split: option.splits)
  from first none show ?thesis by blast
qed

text \<open>
  The example of the claim: the first instruction with several accounts has the indexes
  \<open>[2, 5, 7]\<close>, and the receiver is the key at index 5.
\<close>

theorem receiver_first_multi_account_witness:
  "extractRelevantTxData (Some ex_multi_tx) ''A2'' =
     Inr (Some \<lparr>signature = Some ''sig4'', solscanUrl = ''https://solscan.io/tx/sig4'',
                 date = None, sender = Some ''A0'', receiver = Some ''A5'',
                 amount = None, tokenMint = None, slot = 103\<rparr>)
   \<and> accountKeys (transaction ex_multi_tx) ! ([2, 5, 7] ! 1) = ''A5''"
proof -
  let ?s = "\<lparr>signature = Some ''sig4'', solscanUrl = ''https://solscan.io/tx/sig4'',
             date = None, sender = Some ''A0'', receiver = Some ''A5'',
             amount = None, tokenMint = None, slot = 103\<rparr>"
  let ?m = "ex_legacy [''A0'', ''A1'', ''A2'', ''A3'', ''A4'', ''A5'', ''A6'', ''A7'']
              [ex_ix [3], ex_ix [2, 5, 7], ex_ix [0, 1]]"
  have r: "extractRelevantTxData (Some ex_multi_tx) ''A2'' = Inr (Some ?s)"
    by (rule ex_multi_result)
  have hyp: "message (transaction ex_multi_tx) = Some ?m
      \<and> compiledInstructions ?m = Some ([ex_ix [3]] @ ex_ix [2, 5, 7] # [ex_ix [0, 1]])
      \<and> (\<forall>j\<in>set [ex_ix [3]]. \<forall>l. accountKeyIndexes j = Some l \<longrightarrow> length l < 2)
      \<and> accountKeyIndexes (ex_ix [2, 5, 7]) = Some [2, 5, 7] \<and> 2 \<le> length [2, 5, 7 :: nat]"
    by (simp add: ex_defs)
  from receiver_first_multi_account [OF r] hyp
  have "receiver ?s =
          (if [2, 5, 7] ! 1 < length (accountKeys (transaction ex_multi_tx))
           then Some (accountKeys (transaction ex_multi_tx) ! ([2, 5, 7] ! 1)) else None)"
    by blast
  moreover have "[2, 5, 7] ! 1 < length (accountKeys (transaction ex_multi_tx))"
    by (simp add: accountKeys_def ex_defs)
  ultimately have "accountKeys (transaction ex_multi_tx) ! ([2, 5, 7] ! 1) = ''A5''"
    by simp
  then show ?thesis using r by simp
qed

text \<open>
  Claim C7. The sender is the first of the resolved account keys, and null when there is
  none.
\<close>

theorem sender_first_key:
  assumes "extractRelevantTxData (Some t) w = Inr (Some s)"
  shows "sender s = (case accountKeys (transaction t) of [] \<Rightarrow> None | key # _ \<Rightarrow> Some key)"
proof (cases "message (transaction t)")
  case None
  then show ?thesis
    using extract_fields(4) [OF assms]
    by (simp add: senderReceiver_def accountKeys_no_message)
next
  case (Some m)
  then show ?thesis
    using extract_fields(4) [OF assms]
    by (cases "accountKeys (transaction t)") (simp_all add: senderReceiver_def keyAt_def)
qed

theorem sender_first_key_witness:
  "extractRelevantTxData (Some ex_token_tx) ''Wallet'' =
     Inr (Some \<lparr>signature = Some ''sig1'', solscanUrl = ''https://solscan.io/tx/sig1'',
                 date = Some ''2023-11-14T22:13:20.000Z'', sender = Some ''Payer'',
                 receiver = Some ''Wallet'', amount = Some (Num (1 / 2)),
                 tokenMint = Some ''MintA'', slot = 100\<rparr>)
   \<and> accountKeys (transaction ex_token_tx) = [''Payer'', ''Wallet'', ''Program'']"
proof -
  let ?s = "\<lparr>signature = Some ''sig1'', solscanUrl = ''https://solscan.io/tx/sig1'',
             date = Some ''2023-11-14T22:13:20.000Z'', sender = Some ''Payer'',
             receiver = Some ''Wallet'', amount = Some (Num (1 / 2)),
             tokenMint = Some ''MintA'', slot = 100\<rparr>"
  have r: "extractRelevantTxData (Some ex_token_tx) ''Wallet'' = Inr (Some ?s)"
    by (rule ex_token_result)
  have k: "accountKeys (transaction ex_token_tx) = [''Payer'', ''Wallet'', ''Program'']"
    by (simp add: accountKeys_def ex_defs)
  from sender_first_key [OF r] have "sender ?s = Some ''Payer''"
    by (simp add: k)
  then show ?thesis using r k by simp
qed

subsection \<open>The date\<close>

text \<open>
  Claim C8, as stated, fails: a \<^verbatim>\<open>blockTime\<close> of \<open>0\<close> is present, and the date of the
  summary is null, not the string of the epoch.
\<close>

theorem date_null_counterexample:
  "blockTime ex_epoch_tx = Some 0
   \<and> extractRelevantTxData (Some ex_epoch_tx) ''Wallet'' =
       Inr (Some \<lparr>signature = Some ''sig2'', solscanUrl = ''https://solscan.io/tx/sig2'',
                   date = None, sender = Some ''Wallet'', receiver = Some ''Dest'',
                   amount = Some (Num (- 1)), tokenMint = Some ''SOL'', slot = 101\<rparr>)
   \<and> toISOString (0 * 1000) = Inr ''1970-01-01T00:00:00.000Z''"
  using ex_epoch_result toISOString_epoch by (simp add: ex_epoch_tx_def)

text \<open>
  Claim C8, amended. In a summary the date is null exactly when \<^verbatim>\<open>blockTime\<close> is absent
  or zero; for every other \<^verbatim>\<open>blockTime\<close> it is the ISO string of \<^verbatim>\<open>blockTime * 1000\<close>
  milliseconds.
\<close>

theorem date_from_blockTime:
  assumes "extractRelevantTxData (Some t) w = Inr (Some s)"
  shows "(date s = None \<longleftrightarrow> blockTime t = None \<or> blockTime t = Some 0)
         \<and> (\<forall>b. blockTime t = Some b \<and> b \<noteq> 0 \<longrightarrow>
               (\<exists>iso. date s = Some iso \<and> toISOString (b * 1000) = Inr iso))"
proof -
  note d = extract_fields(1) [OF assms]
  from dateOf_None_iff [OF d]
  have "date s = None \<longleftrightarrow> blockTime t = None \<or> blockTime t = Some 0" .
  moreover have "\<exists>iso. date s = Some iso \<and> toISOString (b * 1000) = Inr iso"
    if "blockTime t = Some b" and "b \<noteq> 0" for b
    using d that dateOf_Some [of b "date s"] by simp
  ultimately show ?thesis by blast
qed

theorem date_from_blockTime_witness:
  "extractRelevantTxData (Some ex_token_tx) ''Wallet'' =
     Inr (Some \<lparr>signature = Some ''sig1'', solscanUrl = ''https://solscan.io/tx/sig1'',
                 date = Some ''2023-11-14T22:13:20.000Z'', sender = Some ''Payer'',
                 receiver = Some ''Wallet'', amount = Some (Num (1 / 2)),
                 tokenMint = Some ''MintA'', slot = 100\<rparr>)
   \<and> blockTime ex_token_tx = Some 1700000000
   \<and> toISOString (1700000000 * 1000) = Inr ''2023-11-14T22:13:20.000Z''"
proof -
  let ?s = "\<lparr>signature = Some ''sig1'', solscanUrl = ''https://solscan.io/tx/sig1'',
             date = Some ''2023-11-14T22:13:20.000Z'', sender = Some ''Payer'',
             receiver = Some ''Wallet'', amount = Some (Num (1 / 2)),
             tokenMint = Some ''MintA'', slot = 100\<rparr>"
  have r: "extractRelevantTxData (Some ex_token_tx) ''Wallet'' = Inr (Some ?s)"
    by (rule ex_token_result)
  have b: "blockTime ex_token_tx = Some 1700000000"
    by (simp add: ex_token_tx_def)
  from date_from_blockTime [OF r] b
  have "\<exists>iso. date ?s = Some iso \<and> toISOString (1700000000 * 1000) = Inr iso"
    by simp
  then have "toISOString (1700000000 * 1000) = Inr ''2023-11-14T22:13:20.000Z''"
    by simp
  with r b show ?thesis by simp
qed

subsection \<open>Absent input and raised errors\<close>

text \<open>
  Claim C4, as stated, fails: a record with a non-empty signature list and no metadata,
  whose \<^verbatim>\<open>blockTime\<close> is \<open>10^13\<close> seconds, is beyond the range of \<^verbatim>\<open>Date\<close>, and the call
  raises \<^verbatim>\<open>RangeError\<close> instead of returning a summary.
\<close>

theorem null_iff_absent_counterexample:
  "signatures (transaction ex_far_future_tx) = [''sig4'']
   \<and> meta ex_far_future_tx = None
   \<and> blockTime ex_far_future_tx = Some 10000000000000
   \<and> extractRelevantTxData (Some ex_far_future_tx) ''A2'' = Inl RangeError"
  using ex_far_future_result by (simp add: ex_far_future_tx_def ex_multi_tx_def)

text \<open>
  Claim C4, amended. An absent transaction gives null. A present one never gives null,
  and it gives a summary, with its signature, its explorer URL and its slot, whenever
  \<^verbatim>\<open>blockTime\<close> is absent or \<^verbatim>\<open>blockTime * 1000\<close> is within \<open>8.64 * 10^15\<close> of zero.
\<close>

theorem null_iff_absent:
  "extractRelevantTxData None w = Inr None
   \<and> extractRelevantTxData (Some t) w \<noteq> Inr None
   \<and> ((case blockTime t of None \<Rightarrow> True | Some b \<Rightarrow> \<bar>b * 1000\<bar> \<le> 8640000000000000) \<longrightarrow>
        (\<exists>s. extractRelevantTxData (Some t) w = Inr (Some s)
           \<and> signature s = (case signatures (transaction t) of [] \<Rightarrow> None | x # _ \<Rightarrow> Some x)
           \<and> solscanUrl s = ''https://solscan.io/tx/''
                @ (case signatures (transaction t) of [] \<Rightarrow> ''undefined'' | x # _ \<Rightarrow> x)
           \<and> slot s = VersionedTransactionResponse.slot t))"
proof -
  have "extractRelevantTxData (Some t) w \<noteq> Inr None"
  proof (cases "dateOf (blockTime t)")
    case (Inl e)
    then show ?thesis by (simp add: extract_raises)
  next
    case (Inr d)
    then show ?thesis by (simp add: extract_returns)
  qed
  moreover have "\<exists>s. extractRelevantTxData (Some t) w = Inr (Some s)
           \<and> signature s = (case signatures (transaction t) of [] \<Rightarrow> None | x # _ \<Rightarrow> Some x)
           \<and> solscanUrl s = ''https://solscan.io/tx/''
                @ (case signatures (transaction t) of [] \<Rightarrow> ''undefined'' | x # _ \<Rightarrow> x)
           \<and> slot s = VersionedTransactionResponse.slot t"
    if "case blockTime t of None \<Rightarrow> True | Some b \<Rightarrow> \<bar>b * 1000\<bar> \<le> 8640000000000000"
  proof -
    from dateOf_in_range [OF that] obtain d where "dateOf (blockTime t) = Inr d" ..
    from extract_returns [OF this, of w] show ?thesis by simp
  qed
  ultimately show ?thesis by (simp add: extract_None)
qed

theorem null_iff_absent_witness:
  "extractRelevantTxData None ''Wallet'' = Inr None
   \<and> blockTime ex_token_tx = Some 1700000000
   \<and> (\<exists>s. extractRelevantTxData (Some ex_token_tx) ''Wallet'' = Inr (Some s)
         \<and> signature s = Some ''sig1''
         \<and> solscanUrl s = ''https://solscan.io/tx/sig1''
         \<and> slot s = 100)"
proof -
  have b: "blockTime ex_token_tx = Some 1700000000"
    by (simp add: ex_token_tx_def)
  then have "case blockTime ex_token_tx of None \<Rightarrow> True
             | Some b \<Rightarrow> \<bar>b * 1000\<bar> \<le> 8640000000000000"
    by simp
  with null_iff_absent [of "''Wallet''" ex_token_tx] b show ?thesis
    by (simp add: ex_token_tx_def)
qed

text \<open>
  Claim C5, as stated, fails: the record below has a signature, metadata whose balance
  arrays are as long as the account keys, and a \<^verbatim>\<open>blockTime\<close> of \<open>-10^13\<close> seconds; the
  call raises \<^verbatim>\<open>RangeError\<close>.
\<close>

theorem no_error_counterexample:
  "signatures (transaction ex_far_past_tx) = [''sig2'']
   \<and> meta ex_far_past_tx = Some ex_native_meta
   \<and> map_option length (preBalances ex_native_meta)
       = Some (length (accountKeys (transaction ex_far_past_tx)))
   \<and> map_option length (postBalances ex_native_meta)
       = Some (length (accountKeys (transaction ex_far_past_tx)))
   \<and> blockTime ex_far_past_tx = Some (- 10000000000000)
   \<and> extractRelevantTxData (Some ex_far_past_tx) ''Wallet'' = Inl RangeError"
  using ex_far_past_result by (simp add: accountKeys_def ex_defs)

text \<open>
  Claim C5, amended. The call returns without raising exactly when the transaction is
  absent, or its \<^verbatim>\<open>blockTime\<close> is absent, or \<^verbatim>\<open>blockTime * 1000\<close> is within
  \<open>8.64 * 10^15\<close> of zero. Nothing else in the record can make it raise: not an empty
  signature list, not balance arrays of the wrong length, not a failing
  \<^verbatim>\<open>getAccountKeys\<close>.
\<close>

theorem no_error_iff_date_in_range:
  "(\<exists>r. extractRelevantTxData tx w = Inr r) \<longleftrightarrow>
     (case tx of
        None \<Rightarrow> True
      | Some t \<Rightarrow>
          (case blockTime t of None \<Rightarrow> True | Some b \<Rightarrow> \<bar>b * 1000\<bar> \<le> 8640000000000000))"
proof (cases tx)
  case None
  then show ?thesis by (simp add: extract_None)
next
  case (Some t)
  show ?thesis
  proof (cases "case blockTime t of None \<Rightarrow> True | Some b \<Rightarrow> \<bar>b * 1000\<bar> \<le> 8640000000000000")
    case True
    from dateOf_in_range [OF True] obtain d where "dateOf (blockTime t) = Inr d" ..
    from extract_returns [OF this, of w] True Some show ?thesis by simp
  next
    case False
    then obtain b where "blockTime t = Some b" and "8640000000000000 < \<bar>b * 1000\<bar>"
      by (cases "blockTime t") auto
    from dateOf_out_of_range [OF this] have "extractRelevantTxData (Some t) w = Inl RangeError"
      by (rule extract_raises)
    with False Some show ?thesis by simp
  qed
qed

theorem no_error_iff_date_in_range_witness:
  "(\<exists>r. extractRelevantTxData (Some ex_v0_tx) ''Wallet'' = Inr r)
   \<and> blockTime ex_v0_tx = Some 1700000000
   \<and> getAccountKeys ex_v0_message None = Inl Error
   \<and> (\<exists>r. extractRelevantTxData None ''Wallet'' = Inr r)"
proof -
  have b: "blockTime ex_v0_tx = Some 1700000000"
    by (simp add: ex_v0_tx_def)
  have "\<exists>r. extractRelevantTxData (Some ex_v0_tx) ''Wallet'' = Inr r"
    by (simp add: no_error_iff_date_in_range b)
  moreover have "\<exists>r. extractRelevantTxData None ''Wallet'' = Inr r"
    by (simp add: no_error_iff_date_in_range)
  ultimately show ?thesis using b by (simp add: ex_v0_message_def ex_v0_def)
qed

subsection \<open>Absent metadata\<close>

text \<open>
  Claim C9, as stated, fails on the date. Without metadata and with a \<^verbatim>\<open>blockTime\<close> of
  \<open>0\<close>, the date can be derived from the transaction and is null all the same; with a
  \<^verbatim>\<open>blockTime\<close> of \<open>-10^13\<close> seconds no summary is returned at all.
\<close>

theorem absent_meta_counterexample:
  "meta ex_epoch_nometa_tx = None
   \<and> blockTime ex_epoch_nometa_tx = Some 0
   \<and> extractRelevantTxData (Some ex_epoch_nometa_tx) ''A2'' =
       Inr (Some \<lparr>signature = Some ''sig4'', solscanUrl = ''https://solscan.io/tx/sig4'',
                   date = None, sender = Some ''A0'', receiver = Some ''A5'',
                   amount = None, tokenMint = None, slot = 103\<rparr>)
   \<and> meta ex_far_past_nometa_tx = None
   \<and> blockTime ex_far_past_nometa_tx = Some (- 10000000000000)
   \<and> extractRelevantTxData (Some ex_far_past_nometa_tx) ''A2'' = Inl RangeError"
  using ex_epoch_nometa_result ex_far_past_nometa_result
  by (simp add: ex_epoch_nometa_tx_def ex_far_past_nometa_tx_def ex_multi_tx_def)

text \<open>
  Claim C9, amended. Without metadata, and with \<^verbatim>\<open>blockTime\<close> absent or within the range of
  \<^verbatim>\<open>Date\<close>, the call returns a summary whose amount and asset are null (no token balance
  is matched and both native balances are null), whose signature, explorer URL and slot
  come from the transaction, and whose date is the ISO string of \<^verbatim>\<open>blockTime * 1000\<close>
  unless \<^verbatim>\<open>blockTime\<close> is absent or zero, when it is null.
\<close>

theorem absent_meta_summary:
  assumes "meta t = None"
    and "case blockTime t of None \<Rightarrow> True | Some b \<Rightarrow> \<bar>b * 1000\<bar> \<le> 8640000000000000"
  shows "tokenBalances (meta t) w = (None, None)
         \<and> nativeBalances (meta t) (accountKeys (transaction t)) w = (Null, Null)
         \<and> (\<exists>s. extractRelevantTxData (Some t) w = Inr (Some s)
              \<and> amount s = None \<and> tokenMint s = None
              \<and> signature s = (case signatures (transaction t) of [] \<Rightarrow> None | x # _ \<Rightarrow> Some x)
              \<and> solscanUrl s = ''https://solscan.io/tx/''
                   @ (case signatures (transaction t) of [] \<Rightarrow> ''undefined'' | x # _ \<Rightarrow> x)
              \<and> slot s = VersionedTransactionResponse.slot t
              \<and> (date s = None \<longleftrightarrow> blockTime t = None \<or> blockTime t = Some 0)
              \<and> (\<forall>b. blockTime t = Some b \<and> b \<noteq> 0 \<longrightarrow>
                    (\<exists>iso. date s = Some iso \<and> toISOString (b * 1000) = Inr iso)))"
proof -
  have tb: "tokenBalances (meta t) w = (None, None)"
    using assms(1) by (simp add: tokenBalances_def)
  have nb: "nativeBalances (meta t) (accountKeys (transaction t)) w = (Null, Null)"
    using assms(1) by (simp add: nativeBalances_def)
  from dateOf_in_range [OF assms(2)] obtain d where d: "dateOf (blockTime t) = Inr d" ..
  note r = extract_returns [OF d, of w]
  have dn: "d = None \<longleftrightarrow> blockTime t = None \<or> blockTime t = Some 0"
    by (rule dateOf_None_iff [OF d])
  have ds: "\<exists>iso. d = Some iso \<and> toISOString (b * 1000) = Inr iso"
    if "blockTime t = Some b" and "b \<noteq> 0" for b
    using d that dateOf_Some [of b d] by simp
  have "amountAndMint None None Null Null = (None, None)"
    by (simp add: amountAndMint_def)
  with r tb nb dn ds show ?thesis by simp
qed

theorem absent_meta_summary_witness:
  "meta (ex_v0_tx\<lparr>meta := None\<rparr>) = None
   \<and> blockTime (ex_v0_tx\<lparr>meta := None\<rparr>) = Some 1700000000
   \<and> (\<exists>s. extractRelevantTxData (Some (ex_v0_tx\<lparr>meta := None\<rparr>)) ''Wallet'' = Inr (Some s)
         \<and> amount s = None \<and> tokenMint s = None \<and> signature s = Some ''sig3''
         \<and> solscanUrl s = ''https://solscan.io/tx/sig3'' \<and> slot s = 102
         \<and> date s = Some ''2023-11-14T22:13:20.000Z'')"
proof -
  let ?t = "ex_v0_tx\<lparr>meta := None\<rparr>"
  have m: "meta ?t = None" by simp
  have b: "blockTime ?t = Some 1700000000" by (simp add: ex_v0_tx_def)
  then have h: "case blockTime ?t of None \<Rightarrow> True | Some b \<Rightarrow> \<bar>b * 1000\<bar> \<le> 8640000000000000"
    by simp
  have sg: "signatures (transaction ?t) = [''sig3'']"
    and sl: "VersionedTransactionResponse.slot ?t = 102"
    by (simp_all add: ex_v0_tx_def)
  from absent_meta_summary [OF m h, of "''Wallet''"]
  have "\<exists>s. extractRelevantTxData (Some ?t) ''Wallet'' = Inr (Some s)
         \<and> amount s = None \<and> tokenMint s = None \<and> signature s = Some ''sig3''
         \<and> solscanUrl s = ''https://solscan.io/tx/sig3'' \<and> slot s = 102
         \<and> date s = Some ''2023-11-14T22:13:20.000Z''"
    using toISOString_2023 unfolding b sg sl by auto
  with m b show ?thesis by simp
qed

end
